theory Spec2Isabelle
  imports Complex_Main "HOL-Library.Multiset"
begin

section \<open>Data model (src/models/lead.py, src/config.py)\<close>

text \<open>
  Python floats are idealised as real numbers: sums, products and quotients are exact.
  A \<open>datetime\<close> is a naive UTC instant, counted in microseconds from a fixed epoch, which
  is the resolution of Python's \<open>datetime\<close> and \<open>timedelta\<close>.
\<close>

type_synonym datetime = int

datatype ScoreCategory = HOT | WARM | COLD

record EngagementSummary =
  email_opens :: int
  email_clicks :: int
  website_visits :: int
  crm_activities :: int
  last_email_open :: "datetime option"
  last_website_visit :: "datetime option"
  last_crm_activity :: "datetime option"

record Lead =
  lead_id :: string
  email :: string
  name :: "string option"
  first_name :: "string option"
  last_name :: "string option"
  company :: "string option"
  job_title :: "string option"
  phone :: "string option"
  company_size :: "int option"
  deal_stage :: "string option"
  created_at :: datetime
  last_activity :: "datetime option"
  engagement :: EngagementSummary

record LeadScore =
  lead :: Lead
  score :: real
  score_category :: ScoreCategory
  score_breakdown :: "string \<rightharpoonup> real"
  calculated_at :: datetime

text \<open>The scoring part of \<open>Settings\<close>, with the two switches the services read.\<close>

record Settings =
  demo_mode :: bool
  slack_webhook_url :: string
  score_refresh_interval :: int
  hot_lead_threshold :: int
  warm_lead_threshold :: int
  weight_email_opens :: real
  weight_email_clicks :: real
  weight_website_visits :: real
  weight_crm_activities :: real
  weight_deal_stage :: real
  weight_company_size :: real
  weight_recency :: real

datatype py_exception =
    ValueError | KeyError | TypeError | AttributeError | ValidationError
  | ConnectError | HTTPStatusError | JSONDecodeError
  | HTTPException int
  | CancelledError | KeyboardInterrupt

section \<open>Feature scorers (src/services/scorer.py)\<close>

text \<open>
  \<open>(datetime.utcnow() - t).days\<close>: a \<open>timedelta\<close> is normalised so that its \<open>days\<close>
  field is the floor of the difference divided by one day, also when the difference is
  negative. Each scorer reads the clock itself; the instant it reads is its first argument.
\<close>

definition days_since :: "datetime \<Rightarrow> datetime \<Rightarrow> int" where
  "days_since now t = (now - t) div 86400000000"

definition score_email_opens :: "datetime \<Rightarrow> Lead \<Rightarrow> real" where
  "score_email_opens now l =
     (let opens = email_opens (engagement l) in
      if opens = 0 then 0
      else
        let recency_boost =
              (case last_email_open (engagement l) of
                 None \<Rightarrow> 1
               | Some t \<Rightarrow>
                   if days_since now t \<le> 7 then 3 / 2
                   else if days_since now t \<le> 30 then 6 / 5
                   else 1);
            base_score = min 1 (of_int opens / 10)
        in min 1 (base_score * recency_boost))"

definition score_email_clicks :: "Lead \<Rightarrow> real" where
  "score_email_clicks l =
     (let clicks = email_clicks (engagement l) in min 1 (of_int clicks / 5))"

definition score_website_visits :: "datetime \<Rightarrow> Lead \<Rightarrow> real" where
  "score_website_visits now l =
     (let visits = website_visits (engagement l) in
      if visits = 0 then 0
      else
        let recency_boost =
              (case last_website_visit (engagement l) of
                 None \<Rightarrow> 1
               | Some t \<Rightarrow>
                   if days_since now t \<le> 3 then 3 / 2
                   else if days_since now t \<le> 7 then 6 / 5
                   else 1);
            base_score = min 1 (of_int visits / 8)
        in min 1 (base_score * recency_boost))"

definition score_crm_activities :: "Lead \<Rightarrow> real" where
  "score_crm_activities l =
     (let activities = crm_activities (engagement l) in min 1 (of_int activities / 6))"

text \<open>\<open>str.lower()\<close> on the ASCII letters; every other byte is left as it is.\<close>

definition lower_char :: "char \<Rightarrow> char" where
  "lower_char c =
     (case map_of (zip ''ABCDEFGHIJKLMNOPQRSTUVWXYZ'' ''abcdefghijklmnopqrstuvwxyz'') c of
        None \<Rightarrow> c
      | Some d \<Rightarrow> d)"

definition lower :: "string \<Rightarrow> string" where
  "lower s = map lower_char s"

definition stage_scores :: "(string \<times> real) list" where
  "stage_scores =
     [(''subscriber'', 2 / 10),
      (''lead'', 3 / 10),
      (''marketing_qualified'', 5 / 10),
      (''qualified'', 6 / 10),
      (''opportunity'', 8 / 10),
      (''customer'', 1)]"

definition score_deal_stage :: "Lead \<Rightarrow> real" where
  "score_deal_stage l =
     (let stage = lower (case deal_stage l of None \<Rightarrow> [] | Some s \<Rightarrow> s) in
      case map_of stage_scores stage of None \<Rightarrow> 3 / 10 | Some v \<Rightarrow> v)"

text \<open>\<open>not lead.company_size\<close> holds for \<open>None\<close> and for \<open>0\<close>.\<close>

definition score_company_size :: "Lead \<Rightarrow> real" where
  "score_company_size l =
     (case company_size l of
        None \<Rightarrow> 3 / 10
      | Some sz \<Rightarrow>
          if sz = 0 then 3 / 10
          else if sz \<le> 10 then 3 / 10
          else if sz \<le> 50 then 5 / 10
          else if sz \<le> 200 then 7 / 10
          else if sz \<le> 1000 then 9 / 10
          else 1)"

text \<open>A \<open>datetime\<close> is always truthy, so \<open>not lead.last_activity\<close> holds for \<open>None\<close> only.\<close>

definition score_recency :: "datetime \<Rightarrow> Lead \<Rightarrow> real" where
  "score_recency now l =
     (case last_activity l of
        None \<Rightarrow> 0
      | Some t \<Rightarrow>
          if days_since now t \<le> 1 then 1
          else if days_since now t \<le> 3 then 8 / 10
          else if days_since now t \<le> 7 then 6 / 10
          else if days_since now t \<le> 14 then 4 / 10
          else if days_since now t \<le> 30 then 2 / 10
          else 0)"

section \<open>Configuration (src/config.py)\<close>

text \<open>
  \<open>validate_weights\<close> raises \<open>ValueError\<close> when the seven weights do not sum to one
  within a thousandth.
\<close>

definition validate_weights :: "Settings \<Rightarrow> py_exception + unit" where
  "validate_weights s =
     (let total =
            weight_email_opens s
          + weight_email_clicks s
          + weight_website_visits s
          + weight_crm_activities s
          + weight_deal_stage s
          + weight_company_size s
          + weight_recency s
      in if \<bar>total - 1\<bar> > 1 / 1000 then Inl ValueError else Inr ())"

text \<open>
  \<open>get_settings\<close> is memoised by \<open>lru_cache\<close>: the process holds at most one \<open>Settings\<close>
  object. The state is that cache: \<open>None\<close> before the first successful call, \<open>Some s\<close>
  afterwards, where \<open>s\<close> is the current content of the shared object. A call that raises
  caches nothing. \<open>env\<close> is what \<open>Settings()\<close> reads from the environment.
\<close>

definition get_settings ::
  "Settings \<Rightarrow> Settings option \<Rightarrow> (py_exception + Settings) \<times> Settings option" where
  "get_settings env cache =
     (case cache of
        Some s \<Rightarrow> (Inr s, cache)
      | None \<Rightarrow>
          (case validate_weights env of
             Inl e \<Rightarrow> (Inl e, None)
           | Inr _ \<Rightarrow> (Inr env, Some env)))"

section \<open>Scoring engine (src/services/scorer.py)\<close>

text \<open>
  A scorer keeps a reference to the shared settings object and its own dictionary of
  weights, filled once by the constructor. The reference carries no data of its own, so
  the functions below take the current content of the settings object as an argument.
\<close>

record LeadScorer =
  weights :: "string \<rightharpoonup> real"

definition LeadScorer_init ::
  "Settings \<Rightarrow> Settings option \<Rightarrow> (py_exception + LeadScorer) \<times> Settings option" where
  "LeadScorer_init env cache =
     (case get_settings env cache of
        (Inl e, c) \<Rightarrow> (Inl e, c)
      | (Inr s, c) \<Rightarrow>
          (Inr \<lparr>weights =
                 [''email_opens'' \<mapsto> weight_email_opens s,
                  ''email_clicks'' \<mapsto> weight_email_clicks s,
                  ''website_visits'' \<mapsto> weight_website_visits s,
                  ''crm_activities'' \<mapsto> weight_crm_activities s,
                  ''deal_stage'' \<mapsto> weight_deal_stage s,
                  ''company_size'' \<mapsto> weight_company_size s,
                  ''recency'' \<mapsto> weight_recency s]\<rparr>, c))"

text \<open>\<open>d[k]\<close> raises \<open>KeyError\<close> for a missing key.\<close>

definition getitem :: "('k \<rightharpoonup> 'v) \<Rightarrow> 'k \<Rightarrow> py_exception + 'v" where
  "getitem d k = (case d k of None \<Rightarrow> Inl KeyError | Some v \<Rightarrow> Inr v)"

definition and_then :: "py_exception + 'a \<Rightarrow> ('a \<Rightarrow> py_exception + 'b) \<Rightarrow> py_exception + 'b" where
  "and_then m f = (case m of Inl e \<Rightarrow> Inl e | Inr v \<Rightarrow> f v)"

definition categorize_score :: "Settings \<Rightarrow> real \<Rightarrow> ScoreCategory" where
  "categorize_score settings sc =
     (if sc \<ge> of_int (hot_lead_threshold settings) then HOT
      else if sc \<ge> of_int (warm_lead_threshold settings) then WARM
      else COLD)"

text \<open>
  Python's \<open>round(x, ndigits)\<close>: the closest multiple of \<open>10 ^ -ndigits\<close>, and the even
  choice when two multiples are equally close.
\<close>

definition py_round :: "real \<Rightarrow> nat \<Rightarrow> real" where
  "py_round x ndigits =
     (let y = x * 10 ^ ndigits;
          f = \<lfloor>y\<rfloor>;
          d = y - of_int f;
          n = (if d < 1 / 2 then f
               else if d > 1 / 2 then f + 1
               else if even f then f else f + 1)
      in of_int n / 10 ^ ndigits)"

text \<open>
  Building a \<open>LeadScore\<close> validates \<open>score: float = Field(ge=0, le=100)\<close>;
  \<open>calculated_at\<close> defaults to the clock.
\<close>

definition LeadScore_init ::
  "Lead \<Rightarrow> real \<Rightarrow> ScoreCategory \<Rightarrow> (string \<rightharpoonup> real) \<Rightarrow> datetime \<Rightarrow> py_exception + LeadScore" where
  "LeadScore_init l sc cat breakdown now =
     (if 0 \<le> sc \<and> sc \<le> 100
      then Inr \<lparr>lead = l, score = sc, score_category = cat,
                score_breakdown = breakdown, calculated_at = now\<rparr>
      else Inl ValidationError)"

text \<open>The instants that one call of \<open>score_lead\<close> reads from the clock, in order.\<close>

record clock_reads =
  at_email_opens :: datetime
  at_website_visits :: datetime
  at_recency :: datetime
  at_calculated :: datetime

definition score_lead ::
  "LeadScorer \<Rightarrow> Settings \<Rightarrow> clock_reads \<Rightarrow> Lead \<Rightarrow> py_exception + LeadScore" where
  "score_lead self settings clk l =
     (let breakdown0 = Map.empty;
          total0 = 0;
          email_opens_score = score_email_opens (at_email_opens clk) l;
          breakdown1 = breakdown0(''email_opens'' \<mapsto> email_opens_score)
      in and_then (getitem (weights self) ''email_opens'') (\<lambda>w1.
      let total1 = total0 + email_opens_score * w1;
          email_clicks_score = score_email_clicks l;
          breakdown2 = breakdown1(''email_clicks'' \<mapsto> email_clicks_score)
      in and_then (getitem (weights self) ''email_clicks'') (\<lambda>w2.
      let total2 = total1 + email_clicks_score * w2;
          website_visits_score = score_website_visits (at_website_visits clk) l;
          breakdown3 = breakdown2(''website_visits'' \<mapsto> website_visits_score)
      in and_then (getitem (weights self) ''website_visits'') (\<lambda>w3.
      let total3 = total2 + website_visits_score * w3;
          crm_activities_score = score_crm_activities l;
          breakdown4 = breakdown3(''crm_activities'' \<mapsto> crm_activities_score)
      in and_then (getitem (weights self) ''crm_activities'') (\<lambda>w4.
      let total4 = total3 + crm_activities_score * w4;
          deal_stage_score = score_deal_stage l;
          breakdown5 = breakdown4(''deal_stage'' \<mapsto> deal_stage_score)
      in and_then (getitem (weights self) ''deal_stage'') (\<lambda>w5.
      let total5 = total4 + deal_stage_score * w5;
          company_size_score = score_company_size l;
          breakdown6 = breakdown5(''company_size'' \<mapsto> company_size_score)
      in and_then (getitem (weights self) ''company_size'') (\<lambda>w6.
      let total6 = total5 + company_size_score * w6;
          recency_score = score_recency (at_recency clk) l;
          breakdown7 = breakdown6(''recency'' \<mapsto> recency_score)
      in and_then (getitem (weights self) ''recency'') (\<lambda>w7.
      let total_score = total6 + recency_score * w7;
          final_score = min 100 (max 0 (total_score * 100));
          category = categorize_score settings final_score
      in LeadScore_init l (py_round final_score 2) category breakdown7
           (at_calculated clk)))))))))"

text \<open>
  \<open>list.sort(key=..., reverse=True)\<close> is a stable sort into descending key order: among
  equal keys the earlier element stays first. It is modelled by a stable insertion sort.
\<close>

fun insort_desc :: "('a \<Rightarrow> real) \<Rightarrow> 'a \<Rightarrow> 'a list \<Rightarrow> 'a list" where
  "insort_desc key x [] = [x]"
| "insort_desc key x (y # ys) =
     (if key y \<le> key x then x # y # ys else y # insort_desc key x ys)"

definition sort_reverse :: "('a \<Rightarrow> real) \<Rightarrow> 'a list \<Rightarrow> 'a list" where
  "sort_reverse key xs = foldr (insort_desc key) xs []"

text \<open>
  The loop of \<open>score_leads\<close>: the \<open>i\<close>-th lead is scored with the clock reads \<open>clk i\<close> and
  appended to \<open>scored_leads\<close>; an exception leaves the loop.
\<close>

fun score_loop ::
  "LeadScorer \<Rightarrow> Settings \<Rightarrow> (nat \<Rightarrow> clock_reads) \<Rightarrow> nat \<Rightarrow> Lead list \<Rightarrow> LeadScore list
     \<Rightarrow> py_exception + LeadScore list" where
  "score_loop self settings clk i [] scored_leads = Inr scored_leads"
| "score_loop self settings clk i (l # ls) scored_leads =
     (case score_lead self settings (clk i) l of
        Inl e \<Rightarrow> Inl e
      | Inr scored_lead \<Rightarrow>
          score_loop self settings clk (Suc i) ls (scored_leads @ [scored_lead]))"

definition score_leads ::
  "LeadScorer \<Rightarrow> Settings \<Rightarrow> (nat \<Rightarrow> clock_reads) \<Rightarrow> Lead list \<Rightarrow> py_exception + LeadScore list" where
  "score_leads self settings clk leads =
     (case score_loop self settings clk 0 leads [] of
        Inl e \<Rightarrow> Inl e
      | Inr scored_leads \<Rightarrow> Inr (sort_reverse score scored_leads))"

section \<open>Alert configuration (src/api/alerts.py)\<close>

record AlertConfig =
  hot_threshold :: int
  warm_threshold :: int
  enable_slack :: bool

text \<open>
  The request body is validated against \<open>AlertConfig\<close> before the handler runs: both
  thresholds carry \<open>Field(ge=0, le=100)\<close>.
\<close>

definition AlertConfig_init :: "int \<Rightarrow> int \<Rightarrow> bool \<Rightarrow> py_exception + AlertConfig" where
  "AlertConfig_init hot warm slack =
     (if 0 \<le> hot \<and> hot \<le> 100 \<and> 0 \<le> warm \<and> warm \<le> 100
      then Inr \<lparr>hot_threshold = hot, warm_threshold = warm, enable_slack = slack\<rparr>
      else Inl ValidationError)"

text \<open>
  The handler mutates the shared settings object, so the new thresholds are what the cache
  holds afterwards.
\<close>

definition update_alert_config ::
  "Settings \<Rightarrow> Settings option \<Rightarrow> AlertConfig
     \<Rightarrow> (py_exception + AlertConfig) \<times> Settings option" where
  "update_alert_config env cache config =
     (case get_settings env cache of
        (Inl e, c) \<Rightarrow> (Inl e, c)
      | (Inr settings, c) \<Rightarrow>
          if warm_threshold config \<ge> hot_threshold config
          then (Inl (HTTPException 400), c)
          else (Inr config,
                Some (settings\<lparr>hot_lead_threshold := hot_threshold config,
                               warm_lead_threshold := warm_threshold config\<rparr>)))"

definition post_alert_config ::
  "Settings \<Rightarrow> Settings option \<Rightarrow> int \<Rightarrow> int \<Rightarrow> bool
     \<Rightarrow> (py_exception + AlertConfig) \<times> Settings option" where
  "post_alert_config env cache hot warm slack =
     (case AlertConfig_init hot warm slack of
        Inl e \<Rightarrow> (Inl (HTTPException 422), cache)
      | Inr config \<Rightarrow> update_alert_config env cache config)"

section \<open>Demo data and defaults\<close>

text \<open>The field defaults of \<open>Settings\<close> (src/config.py).\<close>

definition default_settings :: Settings where
  "default_settings =
     \<lparr>demo_mode = True,
      slack_webhook_url = [],
      score_refresh_interval = 3600,
      hot_lead_threshold = 75,
      warm_lead_threshold = 50,
      weight_email_opens = 25 / 100,
      weight_email_clicks = 20 / 100,
      weight_website_visits = 20 / 100,
      weight_crm_activities = 15 / 100,
      weight_deal_stage = 10 / 100,
      weight_company_size = 5 / 100,
      weight_recency = 5 / 100\<rparr>"

text \<open>
  The five contacts of \<open>HubSpotClient._get_demo_contacts\<close> (src/services/hubspot.py),
  built relative to the instant \<open>now\<close>; an hour is 3600000000 microseconds and a day
  86400000000.
\<close>

definition get_demo_contacts :: "datetime \<Rightarrow> Lead list" where
  "get_demo_contacts now =
     [\<lparr>lead_id = ''demo-1'',
       email = ''sarah.johnson@techcorp.com'',
       name = Some ''Sarah Johnson'',
       first_name = Some ''Sarah'',
       last_name = Some ''Johnson'',
       company = Some ''TechCorp Industries'',
       job_title = Some ''VP of Engineering'',
       phone = Some ''+1-555-0101'',
       company_size = Some 250,
       deal_stage = Some ''opportunity'',
       created_at = now - 2592000000000,
       last_activity = Some (now - 7200000000),
       engagement =
         \<lparr>email_opens = 15, email_clicks = 8, website_visits = 12,
          crm_activities = 6,
          last_email_open = Some (now - 7200000000),
          last_website_visit = Some (now - 14400000000),
          last_crm_activity = Some (now - 86400000000)\<rparr>\<rparr>,
      \<lparr>lead_id = ''demo-2'',
       email = ''michael.chen@startupco.io'',
       name = Some ''Michael Chen'',
       first_name = Some ''Michael'',
       last_name = Some ''Chen'',
       company = Some ''StartupCo'',
       job_title = Some ''CTO'',
       phone = Some ''+1-555-0102'',
       company_size = Some 25,
       deal_stage = Some ''qualified'',
       created_at = now - 1296000000000,
       last_activity = Some (now - 604800000000),
       engagement =
         \<lparr>email_opens = 3, email_clicks = 1, website_visits = 2,
          crm_activities = 1,
          last_email_open = Some (now - 604800000000),
          last_website_visit = Some (now - 864000000000),
          last_crm_activity = Some (now - 1209600000000)\<rparr>\<rparr>,
      \<lparr>lead_id = ''demo-3'',
       email = ''jennifer.martinez@enterprise.com'',
       name = Some ''Jennifer Martinez'',
       first_name = Some ''Jennifer'',
       last_name = Some ''Martinez'',
       company = Some ''Enterprise Solutions Inc'',
       job_title = Some ''Director of Sales'',
       phone = Some ''+1-555-0103'',
       company_size = Some 5000,
       deal_stage = Some ''opportunity'',
       created_at = now - 3888000000000,
       last_activity = Some (now - 3600000000),
       engagement =
         \<lparr>email_opens = 22, email_clicks = 12, website_visits = 18,
          crm_activities = 10,
          last_email_open = Some (now - 3600000000),
          last_website_visit = Some (now - 10800000000),
          last_crm_activity = Some (now - 21600000000)\<rparr>\<rparr>,
      \<lparr>lead_id = ''demo-4'',
       email = ''david.kim@smallbiz.net'',
       name = Some ''David Kim'',
       first_name = Some ''David'',
       last_name = Some ''Kim'',
       company = Some ''Small Business LLC'',
       job_title = Some ''Owner'',
       phone = Some ''+1-555-0104'',
       company_size = Some 5,
       deal_stage = Some ''subscriber'',
       created_at = now - 5184000000000,
       last_activity = Some (now - 2592000000000),
       engagement =
         \<lparr>email_opens = 1, email_clicks = 0, website_visits = 1,
          crm_activities = 0,
          last_email_open = Some (now - 2592000000000),
          last_website_visit = Some (now - 3888000000000),
          last_crm_activity = None\<rparr>\<rparr>,
      \<lparr>lead_id = ''demo-5'',
       email = ''amanda.williams@growthco.com'',
       name = Some ''Amanda Williams'',
       first_name = Some ''Amanda'',
       last_name = Some ''Williams'',
       company = Some ''GrowthCo'',
       job_title = Some ''Head of Marketing'',
       phone = Some ''+1-555-0105'',
       company_size = Some 150,
       deal_stage = Some ''opportunity'',
       created_at = now - 1728000000000,
       last_activity = Some (now - 43200000000),
       engagement =
         \<lparr>email_opens = 10, email_clicks = 6, website_visits = 8,
          crm_activities = 4,
          last_email_open = Some (now - 43200000000),
          last_website_visit = Some (now - 64800000000),
          last_crm_activity = Some (now - 172800000000)\<rparr>\<rparr>]"

section \<open>Lead source (src/services/hubspot.py)\<close>

text \<open>
  \<open>except Exception\<close> catches every exception but those that derive from \<open>BaseException\<close>
  only: a cancelled task and a keyboard interrupt pass through.
\<close>

fun is_Exception :: "py_exception \<Rightarrow> bool" where
  "is_Exception CancelledError = False"
| "is_Exception KeyboardInterrupt = False"
| "is_Exception _ = True"

definition except_Exception ::
  "py_exception + 'a \<Rightarrow> (py_exception \<Rightarrow> py_exception + 'a) \<Rightarrow> py_exception + 'a" where
  "except_Exception body handler =
     (case body of
        Inr v \<Rightarrow> Inr v
      | Inl e \<Rightarrow> if is_Exception e then handler e else Inl e)"

datatype json =
    JNull | JBool bool | JNumber real | JString string
  | JArray "json list" | JObject "(string \<times> json) list"

text \<open>
  What the HTTP client hands back: \<open>response.json()\<close> either decodes the body or raises,
  and \<open>raise_for_status\<close> raises unless the status is a success (2xx).
\<close>

record Response =
  status_code :: int
  json_content :: "py_exception + json"

definition raise_for_status :: "Response \<Rightarrow> py_exception + unit" where
  "raise_for_status response =
     (if 200 \<le> status_code response \<and> status_code response \<le> 299
      then Inr () else Inl HTTPStatusError)"

text \<open>\<open>data.get(key, default)\<close> exists on a dictionary only.\<close>

definition dict_get :: "json \<Rightarrow> string \<Rightarrow> json \<Rightarrow> py_exception + json" where
  "dict_get data k dflt =
     (case data of
        JObject kvs \<Rightarrow> Inr (case map_of kvs k of None \<Rightarrow> dflt | Some v \<Rightarrow> v)
      | _ \<Rightarrow> Inl AttributeError)"

text \<open>
  What a \<open>for\<close> loop iterates over: the items of a list, the keys of a dictionary, the
  characters of a string; the other values are not iterable.
\<close>

definition iterate :: "json \<Rightarrow> py_exception + json list" where
  "iterate v =
     (case v of
        JArray xs \<Rightarrow> Inr xs
      | JObject kvs \<Rightarrow> Inr (map (\<lambda>kv. JString (fst kv)) kvs)
      | JString cs \<Rightarrow> Inr (map (\<lambda>c. JString [c]) cs)
      | _ \<Rightarrow> Inl TypeError)"

text \<open>
  The loop of \<open>get_contacts\<close>. \<open>_parse_contact\<close> is the argument \<open>parse_contact\<close>: it
  returns a lead or raises, and nothing below depends on which.
\<close>

fun parse_contacts ::
  "(json \<Rightarrow> py_exception + Lead) \<Rightarrow> json list \<Rightarrow> Lead list \<Rightarrow> py_exception + Lead list" where
  "parse_contacts parse_contact [] leads = Inr leads"
| "parse_contacts parse_contact (contact # rest) leads =
     (case parse_contact contact of
        Inl e \<Rightarrow> Inl e
      | Inr l \<Rightarrow> parse_contacts parse_contact rest (leads @ [l]))"

text \<open>
  The body of the \<open>try\<close> block; \<open>sent\<close> is what \<open>await client.get(...)\<close> gives: a
  response, or the exception of a request that could not be completed.
\<close>

definition get_contacts_try ::
  "(json \<Rightarrow> py_exception + Lead) \<Rightarrow> py_exception + Response \<Rightarrow> py_exception + Lead list" where
  "get_contacts_try parse_contact sent =
     and_then sent (\<lambda>response.
     and_then (raise_for_status response) (\<lambda>_.
     and_then (json_content response) (\<lambda>data.
     and_then (dict_get data ''results'' (JArray [])) (\<lambda>results.
     and_then (iterate results) (\<lambda>contacts.
     parse_contacts parse_contact contacts [])))))"

definition get_contacts ::
  "(json \<Rightarrow> py_exception + Lead) \<Rightarrow> Settings \<Rightarrow> datetime \<Rightarrow> py_exception + Response
     \<Rightarrow> py_exception + Lead list" where
  "get_contacts parse_contact settings now sent =
     (if demo_mode settings then Inr (get_demo_contacts now)
      else except_Exception (get_contacts_try parse_contact sent) (\<lambda>e. Inr []))"

section \<open>Notifier and refresh job (src/services/slack_notifier.py, src/main.py)\<close>

text \<open>
  A message handed to \<open>client.post\<close>: the hot lead alert of one scored lead, or the summary
  with the total, hot and warm counts. \<open>post\<close> is what the webhook answers to a message.
  Each notifier function returns its result and the messages it posted.
\<close>

datatype slack_message = HotLeadMessage LeadScore | SummaryMessage int int int

definition notify_hot_lead ::
  "Settings \<Rightarrow> string \<Rightarrow> (slack_message \<Rightarrow> py_exception + Response) \<Rightarrow> LeadScore
     \<Rightarrow> (py_exception + bool) \<times> slack_message list" where
  "notify_hot_lead settings webhook_url post lead_score =
     (if demo_mode settings then (Inr True, [])
      else if webhook_url = [] then (Inr False, [])
      else
        let message = HotLeadMessage lead_score in
        (except_Exception
           (and_then (post message) (\<lambda>response.
            and_then (raise_for_status response) (\<lambda>_. Inr True)))
           (\<lambda>e. Inr False),
         [message]))"

definition notify_score_update ::
  "Settings \<Rightarrow> string \<Rightarrow> (slack_message \<Rightarrow> py_exception + Response) \<Rightarrow> int \<Rightarrow> int \<Rightarrow> int
     \<Rightarrow> (py_exception + bool) \<times> slack_message list" where
  "notify_score_update settings webhook_url post total_leads hot_count warm_count =
     (if demo_mode settings then (Inr True, [])
      else if webhook_url = [] then (Inr False, [])
      else
        let message = SummaryMessage total_leads hot_count warm_count in
        (except_Exception
           (and_then (post message) (\<lambda>response.
            and_then (raise_for_status response) (\<lambda>_. Inr True)))
           (\<lambda>e. Inr False),
         [message]))"

fun notify_hot_leads ::
  "Settings \<Rightarrow> string \<Rightarrow> (slack_message \<Rightarrow> py_exception + Response) \<Rightarrow> LeadScore list
     \<Rightarrow> (py_exception + unit) \<times> slack_message list" where
  "notify_hot_leads settings webhook_url post [] = (Inr (), [])"
| "notify_hot_leads settings webhook_url post (hot_lead # rest) =
     (case notify_hot_lead settings webhook_url post hot_lead of
        (Inl e, posted) \<Rightarrow> (Inl e, posted)
      | (Inr _, posted) \<Rightarrow>
          (case notify_hot_leads settings webhook_url post rest of
             (r, posted') \<Rightarrow> (r, posted @ posted')))"

text \<open>
  \<open>scheduled_score_refresh\<close> runs after the application has loaded its settings, so the
  three constructors find the shared object \<open>settings\<close> in the cache. The result is the
  exception that leaves the job, if any, and the messages posted to Slack.
\<close>

definition scheduled_score_refresh ::
  "Settings \<Rightarrow> (json \<Rightarrow> py_exception + Lead) \<Rightarrow> datetime \<Rightarrow> (nat \<Rightarrow> clock_reads)
     \<Rightarrow> py_exception + Response \<Rightarrow> (slack_message \<Rightarrow> py_exception + Response)
     \<Rightarrow> (py_exception + unit) \<times> slack_message list" where
  "scheduled_score_refresh settings parse_contact now clk sent post =
     (case fst (LeadScorer_init settings (Some settings)) of
        Inl e \<Rightarrow> (if is_Exception e then Inr () else Inl e, [])
      | Inr scorer \<Rightarrow>
          let webhook_url = slack_webhook_url settings in
          (case get_contacts parse_contact settings now sent of
             Inl e \<Rightarrow> (if is_Exception e then Inr () else Inl e, [])
           | Inr leads \<Rightarrow>
               (case score_leads scorer settings clk leads of
                  Inl e \<Rightarrow> (if is_Exception e then Inr () else Inl e, [])
                | Inr scored_leads \<Rightarrow>
                    let hot_leads = filter (\<lambda>sl. score_category sl = HOT) scored_leads in
                    (case notify_hot_leads settings webhook_url post hot_leads of
                       (Inl e, posted) \<Rightarrow> (if is_Exception e then Inr () else Inl e, posted)
                     | (Inr _, posted) \<Rightarrow>
                         let hot_count = int (length hot_leads);
                             warm_count =
                               int (length (filter (\<lambda>sl. score_category sl = WARM) scored_leads))
                         in (case notify_score_update settings webhook_url post
                                    (int (length scored_leads)) hot_count warm_count of
                               (Inl e, posted') \<Rightarrow>
                                 (if is_Exception e then Inr () else Inl e, posted @ posted')
                             | (Inr _, posted') \<Rightarrow> (Inr (), posted @ posted'))))))"

section \<open>The aggregation formula, as the specification words it\<close>



section \<open>Reachable configuration states\<close>

text \<open>
  The settings cache starts empty; the program changes it by loading the settings and by
  handling a request to update the alert thresholds.
\<close>

inductive reachable :: "Settings option \<Rightarrow> bool" where
  start: "reachable None"
| load: "reachable cache \<Longrightarrow> reachable (snd (get_settings env cache))"
| update: "reachable cache \<Longrightarrow> reachable (snd (post_alert_config env cache hot warm slack))"

text \<open>Example collaborators for the concrete runs below.\<close>

definition example_scorer :: LeadScorer where
  "example_scorer =
     \<lparr>weights =
        [''email_opens'' \<mapsto> 25 / 100,
         ''email_clicks'' \<mapsto> 20 / 100,
         ''website_visits'' \<mapsto> 20 / 100,
         ''crm_activities'' \<mapsto> 15 / 100,
         ''deal_stage'' \<mapsto> 10 / 100,
         ''company_size'' \<mapsto> 5 / 100,
         ''recency'' \<mapsto> 5 / 100]\<rparr>"

definition example_clock :: "nat \<Rightarrow> clock_reads" where
  "example_clock i =
     \<lparr>at_email_opens = 0, at_website_visits = 0, at_recency = 0, at_calculated = 0\<rparr>"

definition example_parse_contact :: "json \<Rightarrow> py_exception + Lead" where
  "example_parse_contact contact = Inl KeyError"

definition example_post :: "slack_message \<Rightarrow> py_exception + Response" where
  "example_post message = Inr \<lparr>status_code = 200, json_content = Inr JNull\<rparr>"

definition example_live_settings :: Settings where
  "example_live_settings =
     default_settings\<lparr>demo_mode := False, slack_webhook_url := ''https://hooks.example/T0''\<rparr>"

section \<open>Feature scorers: range, monotonicity, recency\<close>











lemma boosted_mono:
  fixes a b :: int and k c :: real
  assumes "a \<le> b" "0 < c" "0 \<le> k"
  shows "min 1 (min 1 (of_int a / c) * k) \<le> min 1 (min 1 (of_int b / c) * k)"
proof -
  have "(of_int a :: real) / c \<le> of_int b / c"
    using assms by (simp add: divide_right_mono)
  hence "min 1 (of_int a / c) \<le> min (1::real) (of_int b / c)"
    by (simp add: min_le_iff_disj)
  hence "min 1 (of_int a / c) * k \<le> min (1::real) (of_int b / c) * k"
    using assms by (simp add: mult_right_mono)
  thus ?thesis by (simp add: min_le_iff_disj)
qed

lemma boosted_sign:
  fixes n :: int and k c :: real
  assumes "0 < c" "0 \<le> k"
  shows "n \<le> 0 \<Longrightarrow> min 1 (min 1 (of_int n / c) * k) \<le> 0"
    and "0 \<le> n \<Longrightarrow> 0 \<le> min 1 (min 1 (of_int n / c) * k)"
proof -
  show "min 1 (min 1 (of_int n / c) * k) \<le> 0" if "n \<le> 0"
    using boosted_mono[of n 0 c k] that assms by simp
  show "0 \<le> min 1 (min 1 (of_int n / c) * k)" if "0 \<le> n"
    using boosted_mono[of 0 n c k] that assms by simp
qed

lemma score_email_opens_mono:
  assumes "a \<le> b"
  shows "score_email_opens now (l\<lparr>engagement := (engagement l)\<lparr>email_opens := a\<rparr>\<rparr>)
       \<le> score_email_opens now (l\<lparr>engagement := (engagement l)\<lparr>email_opens := b\<rparr>\<rparr>)"
proof -
  define k :: real where "k =
     (case last_email_open (engagement l) of
        None \<Rightarrow> 1
      | Some t \<Rightarrow> if days_since now t \<le> 7 then 3 / 2
                  else if days_since now t \<le> 30 then 6 / 5 else 1)"
  have k: "0 \<le> k" by (simp add: k_def split: option.splits)
  have f: "score_email_opens now (l\<lparr>engagement := (engagement l)\<lparr>email_opens := n\<rparr>\<rparr>)
        = (if n = 0 then 0 else min 1 (min 1 (of_int n / 10) * k))" for n
    by (simp add: score_email_opens_def Let_def k_def)
  show ?thesis
    using assms boosted_mono[of a b 10 k] boosted_sign[of 10 k a] boosted_sign[of 10 k b] k
    by (auto simp: f)
qed

lemma score_website_visits_mono:
  assumes "a \<le> b"
  shows "score_website_visits now (l\<lparr>engagement := (engagement l)\<lparr>website_visits := a\<rparr>\<rparr>)
       \<le> score_website_visits now (l\<lparr>engagement := (engagement l)\<lparr>website_visits := b\<rparr>\<rparr>)"
proof -
  define k :: real where "k =
     (case last_website_visit (engagement l) of
        None \<Rightarrow> 1
      | Some t \<Rightarrow> if days_since now t \<le> 3 then 3 / 2
                  else if days_since now t \<le> 7 then 6 / 5 else 1)"
  have k: "0 \<le> k" by (simp add: k_def split: option.splits)
  have f: "score_website_visits now (l\<lparr>engagement := (engagement l)\<lparr>website_visits := n\<rparr>\<rparr>)
        = (if n = 0 then 0 else min 1 (min 1 (of_int n / 8) * k))" for n
    by (simp add: score_website_visits_def Let_def k_def)
  show ?thesis
    using assms boosted_mono[of a b 8 k] boosted_sign[of 8 k a] boosted_sign[of 8 k b] k
    by (auto simp: f)
qed

text \<open>
  C7. Raising one engagement count (opens, clicks, visits or activities) of a lead and
  leaving every other field as it is, at the same clock instant, never lowers the
  sub-score of that feature.
\<close>

theorem count_monotone:
  assumes "a \<le> b"
  shows "score_email_opens now (l\<lparr>engagement := (engagement l)\<lparr>email_opens := a\<rparr>\<rparr>)
           \<le> score_email_opens now (l\<lparr>engagement := (engagement l)\<lparr>email_opens := b\<rparr>\<rparr>)
       \<and> score_email_clicks (l\<lparr>engagement := (engagement l)\<lparr>email_clicks := a\<rparr>\<rparr>)
           \<le> score_email_clicks (l\<lparr>engagement := (engagement l)\<lparr>email_clicks := b\<rparr>\<rparr>)
       \<and> score_website_visits now (l\<lparr>engagement := (engagement l)\<lparr>website_visits := a\<rparr>\<rparr>)
           \<le> score_website_visits now (l\<lparr>engagement := (engagement l)\<lparr>website_visits := b\<rparr>\<rparr>)
       \<and> score_crm_activities (l\<lparr>engagement := (engagement l)\<lparr>crm_activities := a\<rparr>\<rparr>)
           \<le> score_crm_activities (l\<lparr>engagement := (engagement l)\<lparr>crm_activities := b\<rparr>\<rparr>)"
proof -
  have clicks: "score_email_clicks (l\<lparr>engagement := (engagement l)\<lparr>email_clicks := a\<rparr>\<rparr>)
           \<le> score_email_clicks (l\<lparr>engagement := (engagement l)\<lparr>email_clicks := b\<rparr>\<rparr>)"
    using assms by (simp add: score_email_clicks_def min_le_iff_disj)
  have crm: "score_crm_activities (l\<lparr>engagement := (engagement l)\<lparr>crm_activities := a\<rparr>\<rparr>)
           \<le> score_crm_activities (l\<lparr>engagement := (engagement l)\<lparr>crm_activities := b\<rparr>\<rparr>)"
    using assms by (simp add: score_crm_activities_def min_le_iff_disj)
  show ?thesis
    using score_email_opens_mono[OF assms] score_website_visits_mono[OF assms] clicks crm
    by blast
qed

theorem count_monotone_witness:
  "(3::int) \<le> 4
   \<and> score_email_opens 0
        ((get_demo_contacts 0 ! 1)
           \<lparr>engagement := (engagement (get_demo_contacts 0 ! 1))\<lparr>email_opens := 3\<rparr>\<rparr>)
     \<le> score_email_opens 0
        ((get_demo_contacts 0 ! 1)
           \<lparr>engagement := (engagement (get_demo_contacts 0 ! 1))\<lparr>email_opens := 4\<rparr>\<rparr>)
   \<and> score_email_opens 0
        ((get_demo_contacts 0 ! 1)
           \<lparr>engagement := (engagement (get_demo_contacts 0 ! 1))\<lparr>email_opens := 4\<rparr>\<rparr>) = 3 / 5"
proof -
  have h: "(3::int) \<le> 4" by simp
  have v: "score_email_opens 0
        ((get_demo_contacts 0 ! 1)
           \<lparr>engagement := (engagement (get_demo_contacts 0 ! 1))\<lparr>email_opens := 4\<rparr>\<rparr>) = 3 / 5"
    by (simp add: get_demo_contacts_def score_email_opens_def days_since_def)
  from count_monotone[OF h, of 0 "get_demo_contacts 0 ! 1"] h v
  show ?thesis by blast
qed




section \<open>Aggregation\<close>


lemma init_weights:
  assumes "LeadScorer_init env cache = (Inr self, cache')"
  shows "\<exists>s. cache' = Some s \<and> (cache = None \<longrightarrow> s = env) \<and> (cache = None \<or> cache = cache') \<and>
     weights self =
                 [''email_opens'' \<mapsto> weight_email_opens s,
                  ''email_clicks'' \<mapsto> weight_email_clicks s,
                  ''website_visits'' \<mapsto> weight_website_visits s,
                  ''crm_activities'' \<mapsto> weight_crm_activities s,
                  ''deal_stage'' \<mapsto> weight_deal_stage s,
                  ''company_size'' \<mapsto> weight_company_size s,
                  ''recency'' \<mapsto> weight_recency s]"
  using assms
  by (auto simp: LeadScorer_init_def get_settings_def split: option.splits sum.splits prod.splits)







lemma example_scorer_init:
  "LeadScorer_init default_settings None = (Inr example_scorer, Some default_settings)"
  by (simp add: LeadScorer_init_def get_settings_def validate_weights_def default_settings_def
      example_scorer_def)






section \<open>Categorizer\<close>

text \<open>
  C4. With the warm threshold below the hot one, the categorizer gives HOT to a score at
  or above the hot threshold, WARM to a score below it and at or above the warm
  threshold, COLD to a lower score; so the hot threshold itself is HOT, the warm threshold
  itself is WARM, and one unit below the warm threshold is COLD.
\<close>

theorem categorize_score_boundaries:
  assumes "warm_lead_threshold settings < hot_lead_threshold settings"
  shows "(of_int (hot_lead_threshold settings) \<le> sc \<longrightarrow> categorize_score settings sc = HOT)
       \<and> (sc < of_int (hot_lead_threshold settings) \<and> of_int (warm_lead_threshold settings) \<le> sc
            \<longrightarrow> categorize_score settings sc = WARM)
       \<and> (sc < of_int (hot_lead_threshold settings) \<and> sc < of_int (warm_lead_threshold settings)
            \<longrightarrow> categorize_score settings sc = COLD)
       \<and> categorize_score settings (of_int (hot_lead_threshold settings)) = HOT
       \<and> categorize_score settings (of_int (warm_lead_threshold settings)) = WARM
       \<and> categorize_score settings (of_int (warm_lead_threshold settings) - 1) = COLD"
  using assms by (simp add: categorize_score_def)

theorem categorize_score_boundaries_witness:
  "warm_lead_threshold default_settings < hot_lead_threshold default_settings
   \<and> categorize_score default_settings 75 = HOT
   \<and> categorize_score default_settings 50 = WARM
   \<and> categorize_score default_settings 49 = COLD
   \<and> categorize_score default_settings (7499 / 100) = WARM"
proof -
  have h: "warm_lead_threshold default_settings < hot_lead_threshold default_settings"
    by (simp add: default_settings_def)
  have t: "hot_lead_threshold default_settings = 75" "warm_lead_threshold default_settings = 50"
    by (simp_all add: default_settings_def)
  from categorize_score_boundaries[OF h, of "7499 / 100"] h
  show ?thesis by (simp add: t)
qed

section \<open>Scoring many leads\<close>












section \<open>Configuration invariants\<close>

lemma get_settings_valid:
  assumes "\<And>s. cache = Some s \<Longrightarrow> validate_weights s = Inr ()"
      and "snd (get_settings env cache) = Some s"
  shows "validate_weights s = Inr ()"
proof (cases cache)
  case None
  with assms(2) show ?thesis
    by (cases "validate_weights env") (auto simp: get_settings_def)
next
  case (Some s')
  with assms show ?thesis by (simp add: get_settings_def)
qed

lemma validate_weights_thresholds:
  "validate_weights (s\<lparr>hot_lead_threshold := h, warm_lead_threshold := w\<rparr>) = validate_weights s"
  by (simp add: validate_weights_def)

lemma post_alert_config_valid:
  assumes "\<And>s. cache = Some s \<Longrightarrow> validate_weights s = Inr ()"
      and "snd (post_alert_config env cache hot warm slack) = Some s"
  shows "validate_weights s = Inr ()"
proof (cases "AlertConfig_init hot warm slack")
  case (Inl e)
  with assms show ?thesis by (simp add: post_alert_config_def)
next
  case (Inr config)
  obtain r c where g: "get_settings env cache = (r, c)" by (cases "get_settings env cache")
  have c: "validate_weights s' = Inr ()" if "c = Some s'" for s'
    using get_settings_valid[of cache env s'] assms(1) g that by simp
  show ?thesis
  proof (cases r)
    case (Inl e)
    with Inr g assms(2) c show ?thesis
      by (simp add: post_alert_config_def update_alert_config_def)
  next
    case (Inr settings)
    have cs: "c = Some settings"
      using g Inr by (auto simp: get_settings_def split: option.splits sum.splits)
    from \<open>AlertConfig_init hot warm slack = Inr config\<close> Inr g assms(2) c cs show ?thesis
      by (auto simp: post_alert_config_def update_alert_config_def validate_weights_thresholds
          split: if_splits)
  qed
qed

lemma reachable_valid: "reachable cache \<Longrightarrow> cache = Some s \<Longrightarrow> validate_weights s = Inr ()"
proof (induction arbitrary: s rule: reachable.induct)
  case start
  then show ?case by simp
next
  case (load cache env)
  from get_settings_valid[of cache env s] load show ?case by blast
next
  case (update cache env hot warm slack)
  from post_alert_config_valid[of cache env hot warm slack s] update show ?case by blast
qed

lemma validate_weights_Inr:
  "validate_weights s = Inr () \<longleftrightarrow>
     \<bar>weight_email_opens s + weight_email_clicks s + weight_website_visits s
        + weight_crm_activities s + weight_deal_stage s + weight_company_size s
        + weight_recency s - 1\<bar> \<le> 1 / 1000"
  by (auto simp: validate_weights_def Let_def)

text \<open>
  C5. When the settings are first loaded with weights whose sum is more than 0.001 away
  from 1, the constructor of the scorer raises \<open>ValueError\<close> and builds no scorer, and
  nothing is cached. In every reachable state, a scorer that the constructor does build
  holds the weights of the cached settings as they are, and their sum is within 0.001 of
  1: no weight is rescaled.
\<close>

theorem invalid_weights_rejected:
  "(\<bar>weight_email_opens env + weight_email_clicks env + weight_website_visits env
        + weight_crm_activities env + weight_deal_stage env + weight_company_size env
        + weight_recency env - 1\<bar> > 1 / 1000
      \<longrightarrow> LeadScorer_init env None = (Inl ValueError, None))
   \<and> (reachable cache \<and> LeadScorer_init env cache = (Inr self, cache')
      \<longrightarrow> (\<exists>s. cache' = Some s
            \<and> \<bar>weight_email_opens s + weight_email_clicks s + weight_website_visits s
                 + weight_crm_activities s + weight_deal_stage s + weight_company_size s
                 + weight_recency s - 1\<bar> \<le> 1 / 1000
            \<and> weights self =
                 [''email_opens'' \<mapsto> weight_email_opens s,
                  ''email_clicks'' \<mapsto> weight_email_clicks s,
                  ''website_visits'' \<mapsto> weight_website_visits s,
                  ''crm_activities'' \<mapsto> weight_crm_activities s,
                  ''deal_stage'' \<mapsto> weight_deal_stage s,
                  ''company_size'' \<mapsto> weight_company_size s,
                  ''recency'' \<mapsto> weight_recency s]))"
proof (intro conjI impI)
  assume "\<bar>weight_email_opens env + weight_email_clicks env + weight_website_visits env
        + weight_crm_activities env + weight_deal_stage env + weight_company_size env
        + weight_recency env - 1\<bar> > 1 / 1000"
  then show "LeadScorer_init env None = (Inl ValueError, None)"
    by (simp add: LeadScorer_init_def get_settings_def validate_weights_def)
next
  assume a: "reachable cache \<and> LeadScorer_init env cache = (Inr self, cache')"
  from init_weights[of env cache self cache'] a obtain s where s: "cache' = Some s"
    and w: "weights self =
                 [''email_opens'' \<mapsto> weight_email_opens s,
                  ''email_clicks'' \<mapsto> weight_email_clicks s,
                  ''website_visits'' \<mapsto> weight_website_visits s,
                  ''crm_activities'' \<mapsto> weight_crm_activities s,
                  ''deal_stage'' \<mapsto> weight_deal_stage s,
                  ''company_size'' \<mapsto> weight_company_size s,
                  ''recency'' \<mapsto> weight_recency s]"
    by blast
  have "cache' = snd (get_settings env cache)"
    using a by (auto simp: LeadScorer_init_def split: prod.splits sum.splits)
  hence "reachable cache'" using a reachable.load by simp
  from reachable_valid[OF this s] have "validate_weights s = Inr ()" .
  with s w show "\<exists>s. cache' = Some s
            \<and> \<bar>weight_email_opens s + weight_email_clicks s + weight_website_visits s
                 + weight_crm_activities s + weight_deal_stage s + weight_company_size s
                 + weight_recency s - 1\<bar> \<le> 1 / 1000
            \<and> weights self =
                 [''email_opens'' \<mapsto> weight_email_opens s,
                  ''email_clicks'' \<mapsto> weight_email_clicks s,
                  ''website_visits'' \<mapsto> weight_website_visits s,
                  ''crm_activities'' \<mapsto> weight_crm_activities s,
                  ''deal_stage'' \<mapsto> weight_deal_stage s,
                  ''company_size'' \<mapsto> weight_company_size s,
                  ''recency'' \<mapsto> weight_recency s]"
    by (simp add: validate_weights_Inr)
qed

theorem invalid_weights_rejected_witness:
  "LeadScorer_init (default_settings\<lparr>weight_email_opens := 75 / 100\<rparr>) None
     = (Inl ValueError, None)
   \<and> LeadScorer_init
       (default_settings\<lparr>weight_email_opens := 0, weight_email_clicks := 0,
                          weight_deal_stage := 5 / 100\<rparr>) None
     = (Inl ValueError, None)
   \<and> reachable None
   \<and> LeadScorer_init default_settings None = (Inr example_scorer, Some default_settings)
   \<and> weights example_scorer ''email_opens'' = Some (25 / 100)"
proof -
  have a: "LeadScorer_init (default_settings\<lparr>weight_email_opens := 75 / 100\<rparr>) None
     = (Inl ValueError, None)"
    using invalid_weights_rejected[of "default_settings\<lparr>weight_email_opens := 75 / 100\<rparr>"]
    by (simp add: default_settings_def)
  have b: "LeadScorer_init
       (default_settings\<lparr>weight_email_opens := 0, weight_email_clicks := 0,
                          weight_deal_stage := 5 / 100\<rparr>) None
     = (Inl ValueError, None)"
    using invalid_weights_rejected[of
        "default_settings\<lparr>weight_email_opens := 0, weight_email_clicks := 0,
                          weight_deal_stage := 5 / 100\<rparr>"]
    by (simp add: default_settings_def)
  from invalid_weights_rejected[of default_settings None example_scorer "Some default_settings"]
    reachable.start example_scorer_init
  have "weights example_scorer ''email_opens'' = Some (weight_email_opens default_settings)"
    by auto
  hence c: "weights example_scorer ''email_opens'' = Some (25 / 100)"
    by (simp add: default_settings_def)
  from a b c reachable.start example_scorer_init show ?thesis by blast
qed

text \<open>
  C6. With the settings loaded, a request to update the thresholds is rejected, and the
  settings stay as they were, when the warm threshold is not below the hot one or a
  threshold is outside the range from 0 to 100; otherwise it is accepted and the settings
  hold the two requested thresholds.
\<close>

theorem threshold_update_checked:
  "(\<not> warm < hot \<or> hot < 0 \<or> 100 < hot \<or> warm < 0 \<or> 100 < warm
      \<longrightarrow> (\<exists>e. post_alert_config env (Some s) hot warm slack = (Inl e, Some s)))
   \<and> (warm < hot \<and> 0 \<le> warm \<and> hot \<le> 100
      \<longrightarrow> post_alert_config env (Some s) hot warm slack
            = (Inr \<lparr>hot_threshold = hot, warm_threshold = warm, enable_slack = slack\<rparr>,
               Some (s\<lparr>hot_lead_threshold := hot, warm_lead_threshold := warm\<rparr>)))"
proof (intro conjI impI)
  assume bad: "\<not> warm < hot \<or> hot < 0 \<or> 100 < hot \<or> warm < 0 \<or> 100 < warm"
  show "\<exists>e. post_alert_config env (Some s) hot warm slack = (Inl e, Some s)"
  proof (cases "0 \<le> hot \<and> hot \<le> 100 \<and> 0 \<le> warm \<and> warm \<le> 100")
    case True
    with bad have "hot \<le> warm" by simp
    with True have "post_alert_config env (Some s) hot warm slack
                      = (Inl (HTTPException 400), Some s)"
      by (simp add: post_alert_config_def AlertConfig_init_def update_alert_config_def
          get_settings_def)
    then show ?thesis by blast
  next
    case False
    then have "AlertConfig_init hot warm slack = Inl ValidationError"
      by (auto simp: AlertConfig_init_def)
    then have "post_alert_config env (Some s) hot warm slack = (Inl (HTTPException 422), Some s)"
      by (simp add: post_alert_config_def)
    then show ?thesis by blast
  qed
next
  assume good: "warm < hot \<and> 0 \<le> warm \<and> hot \<le> 100"
  then have "AlertConfig_init hot warm slack
               = Inr \<lparr>hot_threshold = hot, warm_threshold = warm, enable_slack = slack\<rparr>"
    by (simp add: AlertConfig_init_def)
  with good show "post_alert_config env (Some s) hot warm slack
            = (Inr \<lparr>hot_threshold = hot, warm_threshold = warm, enable_slack = slack\<rparr>,
               Some (s\<lparr>hot_lead_threshold := hot, warm_lead_threshold := warm\<rparr>))"
    by (simp add: post_alert_config_def update_alert_config_def get_settings_def)
qed

theorem threshold_update_checked_witness:
  "post_alert_config default_settings (Some default_settings) 50 50 True
     = (Inl (HTTPException 400), Some default_settings)
   \<and> post_alert_config default_settings (Some default_settings) 150 50 True
     = (Inl (HTTPException 422), Some default_settings)
   \<and> post_alert_config default_settings (Some default_settings) 80 60 True
     = (Inr \<lparr>hot_threshold = 80, warm_threshold = 60, enable_slack = True\<rparr>,
        Some (default_settings\<lparr>hot_lead_threshold := 80, warm_lead_threshold := 60\<rparr>))"
proof -
  from threshold_update_checked[of 50 50 default_settings default_settings True]
  obtain e1 where e1: "post_alert_config default_settings (Some default_settings) 50 50 True
     = (Inl e1, Some default_settings)" by auto
  from threshold_update_checked[of 50 150 default_settings default_settings True]
  obtain e2 where e2: "post_alert_config default_settings (Some default_settings) 150 50 True
     = (Inl e2, Some default_settings)" by auto
  from threshold_update_checked[of 60 80 default_settings default_settings True]
  have ok: "post_alert_config default_settings (Some default_settings) 80 60 True
     = (Inr \<lparr>hot_threshold = 80, warm_threshold = 60, enable_slack = True\<rparr>,
        Some (default_settings\<lparr>hot_lead_threshold := 80, warm_lead_threshold := 60\<rparr>))"
    by simp
  have "e1 = HTTPException 400"
    using e1 by (simp add: post_alert_config_def AlertConfig_init_def update_alert_config_def
        get_settings_def)
  moreover have "e2 = HTTPException 422"
    using e2 by (simp add: post_alert_config_def AlertConfig_init_def)
  ultimately show ?thesis using e1 e2 ok by simp
qed

section \<open>Fetch failure\<close>

lemma score_leads_Nil: "score_leads self settings clk [] = Inr []"
  by (simp add: score_leads_def sort_reverse_def)

lemma init_cached: "fst (LeadScorer_init env (Some s)) =
     Inr \<lparr>weights =
                 [''email_opens'' \<mapsto> weight_email_opens s,
                  ''email_clicks'' \<mapsto> weight_email_clicks s,
                  ''website_visits'' \<mapsto> weight_website_visits s,
                  ''crm_activities'' \<mapsto> weight_crm_activities s,
                  ''deal_stage'' \<mapsto> weight_deal_stage s,
                  ''company_size'' \<mapsto> weight_company_size s,
                  ''recency'' \<mapsto> weight_recency s]\<rparr>"
  by (simp add: LeadScorer_init_def get_settings_def)

lemma get_contacts_caught:
  assumes "\<not> demo_mode settings"
      and "get_contacts_try parse_contact sent = Inl e"
      and "is_Exception e"
  shows "get_contacts parse_contact settings now sent = Inr []"
  using assms by (simp add: get_contacts_def except_Exception_def)

lemma refresh_after_empty_fetch:
  assumes "\<not> demo_mode settings"
      and "get_contacts parse_contact settings now sent = Inr []"
  shows "snd (scheduled_score_refresh settings parse_contact now clk sent post)
       = (if slack_webhook_url settings = [] then [] else [SummaryMessage 0 0 0])"
proof -
  obtain scorer where sc: "fst (LeadScorer_init settings (Some settings)) = Inr scorer"
    using init_cached by blast
  show ?thesis
    unfolding scheduled_score_refresh_def sc
    using assms
    by (simp add: score_leads_Nil notify_score_update_def Let_def split: sum.splits)
qed

text \<open>
  C9, as the code has it. Outside demo mode, when the request, the status check, the
  decoding or the parsing of a contact raises an exception that derives from
  \<open>Exception\<close>, \<open>get_contacts\<close> returns the empty list and raises nothing. Scoring the
  empty list gives the empty list, and the refresh job posts no hot lead alert; it still
  posts the summary, with the counts 0, 0 and 0, when a Slack webhook is configured.
\<close>

theorem fetch_failure_gives_no_leads:
  assumes "\<not> demo_mode settings"
      and "get_contacts_try parse_contact sent = Inl e"
      and "is_Exception e"
  shows "get_contacts parse_contact settings now sent = Inr []
       \<and> score_leads self settings clk [] = Inr []
       \<and> snd (scheduled_score_refresh settings parse_contact now clk sent post)
           = (if slack_webhook_url settings = [] then [] else [SummaryMessage 0 0 0])"
  using get_contacts_caught[OF assms] refresh_after_empty_fetch[OF assms(1)] score_leads_Nil
  by blast

theorem fetch_failure_gives_no_leads_witness:
  "\<not> demo_mode (default_settings\<lparr>demo_mode := False\<rparr>)
   \<and> get_contacts_try example_parse_contact
        (Inr \<lparr>status_code = 200, json_content = Inr (JArray [JNull])\<rparr>) = Inl AttributeError
   \<and> is_Exception AttributeError
   \<and> get_contacts example_parse_contact (default_settings\<lparr>demo_mode := False\<rparr>) 0
        (Inr \<lparr>status_code = 200, json_content = Inr (JArray [JNull])\<rparr>) = Inr []
   \<and> snd (scheduled_score_refresh (default_settings\<lparr>demo_mode := False\<rparr>) example_parse_contact
             0 example_clock
             (Inr \<lparr>status_code = 200, json_content = Inr (JArray [JNull])\<rparr>) example_post) = []"
proof -
  have h1: "\<not> demo_mode (default_settings\<lparr>demo_mode := False\<rparr>)" by simp
  have h2: "get_contacts_try example_parse_contact
        (Inr \<lparr>status_code = 200, json_content = Inr (JArray [JNull])\<rparr>) = Inl AttributeError"
    by (simp add: get_contacts_try_def and_then_def raise_for_status_def dict_get_def)
  have h3: "is_Exception AttributeError" by simp
  have u: "slack_webhook_url (default_settings\<lparr>demo_mode := False\<rparr>) = []"
    by (simp add: default_settings_def)
  from fetch_failure_gives_no_leads[OF h1 h2 h3, of 0 example_scorer example_clock example_post]
    h1 h2 h3 u
  show ?thesis by simp
qed

text \<open>
  The claim as the specification words it fails: with a webhook configured and the data
  source unreachable, the fetch gives no leads and the job still posts a message.
\<close>

theorem fetch_failure_still_notifies:
  "\<not> demo_mode example_live_settings
   \<and> get_contacts_try example_parse_contact (Inl ConnectError) = Inl ConnectError
   \<and> get_contacts example_parse_contact example_live_settings 0 (Inl ConnectError) = Inr []
   \<and> snd (scheduled_score_refresh example_live_settings example_parse_contact 0 example_clock
             (Inl ConnectError) example_post) = [SummaryMessage 0 0 0]
   \<and> snd (scheduled_score_refresh example_live_settings example_parse_contact 0 example_clock
             (Inl ConnectError) example_post) \<noteq> []"
proof -
  have d: "\<not> demo_mode example_live_settings"
    by (simp add: example_live_settings_def)
  have t: "get_contacts_try example_parse_contact (Inl ConnectError) = Inl ConnectError"
    by (simp add: get_contacts_try_def and_then_def)
  have g: "get_contacts example_parse_contact example_live_settings 0 (Inl ConnectError) = Inr []"
    using d t by (simp add: get_contacts_def except_Exception_def)
  have u: "slack_webhook_url example_live_settings \<noteq> []"
    by (simp add: example_live_settings_def)
  have r: "snd (scheduled_score_refresh example_live_settings example_parse_contact 0
             example_clock (Inl ConnectError) example_post) = [SummaryMessage 0 0 0]"
    using refresh_after_empty_fetch[OF d g, of example_clock example_post] u by simp
  from d t g r show ?thesis by simp
qed


end
